theory Spec2Isabelle
  imports Complex_Main
begin

section \<open>DebtFlow: the ledger and the auto-bank milestone engine of \<open>src/app/page.tsx\<close>\<close>

text \<open>
  The source computes with JavaScript numbers. They are modelled as rationals: every
  finite number of the program is a rational, and \<open>+\<close>, \<open>-\<close>, \<open>*\<close>, \<open>/\<close> and the
  comparisons are taken exactly, so the model describes the arithmetic the code is
  written to perform and leaves out the representation error of binary floating point,
  \<open>NaN\<close> and the infinities. Under this reading

  \<^item> \<open>+x.toFixed(2)\<close> is rounding to the nearest multiple of \<open>1/100\<close>, a tie going away
    from zero (toFixed takes the larger candidate for the absolute value);
  \<^item> \<open>Math.round\<close> is rounding to the nearest integer, a tie going up;
  \<^item> \<open>Math.floor\<close> is the floor.

  Time stamps, dates and fresh identifiers (\<open>new Date()\<close>, \<open>todayYYYYMMDD()\<close>,
  \<open>uuid()\<close>) are parameters of the operations that read them.
\<close>

type_synonym number = rat

definition toFixed2 :: "number \<Rightarrow> number" where
  "toFixed2 x =
     (if x < 0 then - (of_int \<lfloor>- x * 100 + 1 / 2\<rfloor> / 100)
      else of_int \<lfloor>x * 100 + 1 / 2\<rfloor> / 100)"

definition Math_round :: "number \<Rightarrow> number" where
  "Math_round x = of_int \<lfloor>x + 1 / 2\<rfloor>"

definition Math_floor :: "number \<Rightarrow> number" where
  "Math_floor x = of_int \<lfloor>x\<rfloor>"

subsection \<open>Types\<close>

datatype Sport = Football | Cricket | Tennis | Other

datatype BetStatus = Pending | Won | Lost

record Bet =
  bet_id :: string
  bet_date :: string
  description :: string
  sport :: Sport
  stake :: number
  oddsDecimal :: number
  status :: BetStatus
  returnOverride :: "number option"
  settledAt :: "string option"
  createdAt :: string
  updatedAt :: string

text \<open>
  \<open>Partial<Bet>\<close>, the type of the add-bet form and of the patch of \<open>updateBet\<close>: every
  key may be absent (\<open>None\<close>). For the two nullable fields \<open>Some None\<close> is a key that is
  present with the value \<open>null\<close>.
\<close>

record PartialBet =
  p_id :: "string option"
  p_date :: "string option"
  p_description :: "string option"
  p_sport :: "Sport option"
  p_stake :: "number option"
  p_oddsDecimal :: "number option"
  p_status :: "BetStatus option"
  p_returnOverride :: "number option option"
  p_settledAt :: "string option option"
  p_createdAt :: "string option"
  p_updatedAt :: "string option"

record Settings =
  debtTotal :: number
  startingBankroll :: number
  targetAmount :: number
  bankPercentOnTarget :: number
  autoBankEnabled :: bool
  autoBankCardId :: "string option"
  runStartStake :: number
  runTargetStake :: number

datatype PaymentSource = Betting | Trading | Savings

record Payment =
  pay_id :: string
  pay_date :: string
  amount :: number
  source :: PaymentSource
  pay_note :: "string option"
  cardId :: "string option"

record DebtCard =
  card_id :: string
  card_name :: string
  balance :: number

subsection \<open>Utilities\<close>

definition calcDefaultReturn :: "number \<Rightarrow> number \<Rightarrow> BetStatus \<Rightarrow> number option" where
  "calcDefaultReturn stk odds st =
     (if st = Won then Some (toFixed2 (stk * odds))
      else if st = Lost then Some 0
      else None)"

definition effectiveReturn :: "Bet \<Rightarrow> number option" where
  "effectiveReturn b =
     (let def = calcDefaultReturn (stake b) (oddsDecimal b) (status b)
      in case returnOverride b of Some v \<Rightarrow> Some v | None \<Rightarrow> def)"

record Stats =
  settledCount :: nat
  wonCount :: nat
  hitRate :: number
  totalStaked :: number
  totalReturns :: number
  profit :: number
  progress :: number

definition computeStats :: "Bet list \<Rightarrow> number \<Rightarrow> Stats" where
  "computeStats bs target =
     (let settled = filter (\<lambda>b. status b \<noteq> Pending) bs;
          won = filter (\<lambda>b. status b = Won) settled;
          totalStaked = foldl (\<lambda>s b. s + stake b) 0 settled;
          totalReturns =
            foldl (\<lambda>s b. s + (case effectiveReturn b of Some r \<Rightarrow> r | None \<Rightarrow> 0)) 0 settled;
          profit = toFixed2 (totalReturns - totalStaked);
          hitRate =
            (if length settled \<noteq> 0
             then Math_round (of_nat (length won) / of_nat (length settled) * 100) else 0);
          rawProgress = (if target > 0 then Math_round (profit / target * 100) else 0);
          progress = min 100 (max 0 rawProgress)
      in \<lparr> settledCount = length settled, wonCount = length won, hitRate = hitRate,
           totalStaked = totalStaked, totalReturns = totalReturns, profit = profit,
           progress = progress \<rparr>)"

definition sumPayments :: "Payment list \<Rightarrow> PaymentSource option \<Rightarrow> number" where
  "sumPayments pays src =
     toFixed2 (foldl (\<lambda>s p. s + (case src of
                                    Some so \<Rightarrow> (if source p = so then amount p else 0)
                                  | None \<Rightarrow> amount p)) 0 pays)"

definition sumPaymentsToCard :: "Payment list \<Rightarrow> string \<Rightarrow> number" where
  "sumPaymentsToCard pays cid =
     toFixed2 (foldl (\<lambda>s p. s + (if cardId p = Some cid then amount p else 0)) 0 pays)"

definition totalDebt :: "DebtCard list \<Rightarrow> number \<Rightarrow> number" where
  "totalDebt cs fallbackDebtTotal =
     (if length cs = 0 then toFixed2 fallbackDebtTotal
      else toFixed2 (foldl (\<lambda>s c. s + balance c) 0 cs))"

definition remainingDebtFromCards :: "DebtCard list \<Rightarrow> Payment list \<Rightarrow> number" where
  "remainingDebtFromCards cs pays =
     toFixed2 (foldl (\<lambda>s c. s + max 0 (balance c - sumPaymentsToCard pays (card_id c))) 0 cs)"

subsection \<open>The application state and its derived values\<close>

record AppState =
  bets :: "Bet list"
  settings :: Settings
  payments :: "Payment list"
  bankedMilestones :: number
  cards :: "DebtCard list"

definition stats :: "AppState \<Rightarrow> Stats" where
  "stats s = computeStats (bets s) (targetAmount (settings s))"

definition bankedFromBetting :: "AppState \<Rightarrow> number" where
  "bankedFromBetting s = sumPayments (payments s) (Some Betting)"

definition availableProfitBetting :: "AppState \<Rightarrow> number" where
  "availableProfitBetting s = toFixed2 (profit (stats s) - bankedFromBetting s)"

definition debtTotalEffective :: "AppState \<Rightarrow> number" where
  "debtTotalEffective s = totalDebt (cards s) (debtTotal (settings s))"

definition paidTotal :: "AppState \<Rightarrow> number" where
  "paidTotal s = sumPayments (payments s) None"

definition remainingTotal :: "AppState \<Rightarrow> number" where
  "remainingTotal s =
     (if length (cards s) \<noteq> 0 then remainingDebtFromCards (cards s) (payments s)
      else max 0 (toFixed2 (debtTotal (settings s) - paidTotal s)))"

definition paidShown :: "AppState \<Rightarrow> number" where
  "paidShown s = toFixed2 (debtTotalEffective s - remainingTotal s)"

subsection \<open>Auto bank: the effect that fires when available profit crosses milestones\<close>

text \<open>
  The effect reads the settings, the available betting profit, the milestone counter and
  the cards, and either returns without a state change or prepends one payment and sets
  \<open>bankedMilestones\<close>. \<open>autoBankEffect\<close> is its body as a function of those values: the
  payment it emits, if any, and the counter afterwards. \<open>autoBank\<close> runs it on the
  application state. \<open>d\<close> is today's date and \<open>i\<close> the fresh id.
\<close>

definition autoBankCard :: "Settings \<Rightarrow> DebtCard list \<Rightarrow> string option" where
  "autoBankCard st cs =
     (case autoBankCardId st of
        Some c \<Rightarrow> (if c \<noteq> [] then Some c
                   else (case cs of [] \<Rightarrow> None | c0 # _ \<Rightarrow> Some (card_id c0)))
      | None \<Rightarrow> (case cs of [] \<Rightarrow> None | c0 # _ \<Rightarrow> Some (card_id c0)))"

definition autoBankEffect ::
  "Settings \<Rightarrow> number \<Rightarrow> number \<Rightarrow> DebtCard list \<Rightarrow> string \<Rightarrow> string \<Rightarrow> Payment option \<times> number"
where
  "autoBankEffect st avail banked cs d i =
     (if \<not> autoBankEnabled st \<or> targetAmount st \<le> 0 \<or> bankPercentOnTarget st \<le> 0
      then (None, banked)
      else
        let target = targetAmount st;
            multiples = Math_floor (avail / target)
        in if multiples > banked then
             let perMilestone = toFixed2 (target * (bankPercentOnTarget st / 100));
                 count = multiples - banked;
                 totalToBank = toFixed2 (perMilestone * count)
             in if totalToBank > 0 then
                  (Some \<lparr> pay_id = i, pay_date = d, amount = totalToBank, source = Betting,
                          pay_note = Some ''Auto bank on target'',
                          cardId = autoBankCard st cs \<rparr>,
                   multiples)
                else (None, banked)
           else (None, banked))"

definition autoBank :: "string \<Rightarrow> string \<Rightarrow> AppState \<Rightarrow> AppState" where
  "autoBank d i s =
     (case autoBankEffect (settings s) (availableProfitBetting s) (bankedMilestones s)
             (cards s) d i of
        (None, m) \<Rightarrow> s\<lparr> bankedMilestones := m \<rparr>
      | (Some p, m) \<Rightarrow> s\<lparr> payments := p # payments s, bankedMilestones := m \<rparr>)"

subsection \<open>Bets: adding, updating, removing\<close>

text \<open>\<open>String.prototype.trim\<close>, on the ASCII white space characters.\<close>

definition isSpace :: "char \<Rightarrow> bool" where
  "isSpace c = (c \<in> set [CHR '' '', CHR 0x09, CHR 0x0A, CHR 0x0B, CHR 0x0C, CHR 0x0D])"

definition trim :: "string \<Rightarrow> string" where
  "trim t = rev (dropWhile isSpace (rev (dropWhile isSpace t)))"

text \<open>
  \<open>addBet\<close> reads the form; \<open>now\<close> is \<open>new Date().toISOString()\<close> and \<open>i\<close> the fresh id.
  A form with a missing or empty date or description, or without sport, stake, odds or
  status, adds nothing.
\<close>

definition addBet :: "PartialBet \<Rightarrow> string \<Rightarrow> string \<Rightarrow> AppState \<Rightarrow> AppState" where
  "addBet form now i s =
     (case (p_date form, p_description form, p_sport form, p_stake form,
            p_oddsDecimal form, p_status form) of
        (Some dt, Some ds, Some sp, Some stk, Some od, Some sta) \<Rightarrow>
          if dt = [] \<or> ds = [] then s
          else
            let bet = \<lparr> bet_id = i, bet_date = dt, description = trim ds, sport = sp,
                        stake = stk, oddsDecimal = od, status = sta,
                        returnOverride =
                          (case p_returnOverride form of
                             None \<Rightarrow> None
                           | Some None \<Rightarrow> None
                           | Some (Some v) \<Rightarrow> if v = 0 then None else Some v),
                        settledAt = (if sta \<noteq> Pending then Some now else None),
                        createdAt = now, updatedAt = now \<rparr>
            in s\<lparr> bets := bet # bets s \<rparr>
      | _ \<Rightarrow> s)"

text \<open>
  \<open>updateBet\<close> replaces the bet with the given id by
  \<open>{ ...b, ...patch, updatedAt: now, settledAt: ... }\<close>; \<open>patchBet\<close> is that object. The
  two time stamps are read one after the other (\<open>nowU\<close>, \<open>nowS\<close>).
\<close>

definition orElse :: "'a option \<Rightarrow> 'a \<Rightarrow> 'a" where
  "orElse x d = (case x of Some v \<Rightarrow> v | None \<Rightarrow> d)"

definition patchBet :: "Bet \<Rightarrow> PartialBet \<Rightarrow> string \<Rightarrow> string \<Rightarrow> Bet" where
  "patchBet b patch nowU nowS =
     \<lparr> bet_id = orElse (p_id patch) (bet_id b),
       bet_date = orElse (p_date patch) (bet_date b),
       description = orElse (p_description patch) (description b),
       sport = orElse (p_sport patch) (sport b),
       stake = orElse (p_stake patch) (stake b),
       oddsDecimal = orElse (p_oddsDecimal patch) (oddsDecimal b),
       status = orElse (p_status patch) (status b),
       returnOverride = orElse (p_returnOverride patch) (returnOverride b),
       settledAt =
         (case p_status patch of
            Some sta \<Rightarrow> if sta \<noteq> Pending then Some nowS else settledAt b
          | None \<Rightarrow> settledAt b),
       createdAt = orElse (p_createdAt patch) (createdAt b),
       updatedAt = nowU \<rparr>"

definition updateBet :: "string \<Rightarrow> PartialBet \<Rightarrow> string \<Rightarrow> string \<Rightarrow> AppState \<Rightarrow> AppState" where
  "updateBet bid patch nowU nowS s =
     s\<lparr> bets := map (\<lambda>b. if bet_id b = bid then patchBet b patch nowU nowS else b) (bets s) \<rparr>"

definition removeBet :: "string \<Rightarrow> AppState \<Rightarrow> AppState" where
  "removeBet bid s = s\<lparr> bets := filter (\<lambda>b. bet_id b \<noteq> bid) (bets s) \<rparr>"

text \<open>The patch with no key, and the two patches the user interface sends.\<close>

definition noPatch :: PartialBet where
  "noPatch = \<lparr> p_id = None, p_date = None, p_description = None, p_sport = None,
               p_stake = None, p_oddsDecimal = None, p_status = None,
               p_returnOverride = None, p_settledAt = None, p_createdAt = None,
               p_updatedAt = None \<rparr>"

definition statusPatch :: "BetStatus \<Rightarrow> PartialBet" where
  "statusPatch v = noPatch\<lparr> p_status := Some v \<rparr>"

definition returnPatch :: "number option \<Rightarrow> PartialBet" where
  "returnPatch override = noPatch\<lparr> p_returnOverride := Some override \<rparr>"

subsection \<open>Banking\<close>

definition bankPayment ::
  "number \<Rightarrow> PaymentSource \<Rightarrow> string option \<Rightarrow> string option \<Rightarrow> string \<Rightarrow> string
     \<Rightarrow> AppState \<Rightarrow> AppState"
where
  "bankPayment amt src nt cid d i s =
     (if amt \<le> 0 then s
      else s\<lparr> payments :=
                \<lparr> pay_id = i, pay_date = d, amount = toFixed2 amt, source = src,
                  pay_note = nt, cardId = cid \<rparr> # payments s \<rparr>)"

definition perMilestone :: "Settings \<Rightarrow> number" where
  "perMilestone st = toFixed2 (targetAmount st * (bankPercentOnTarget st / 100))"

definition bankFromBettingNow :: "string option \<Rightarrow> string \<Rightarrow> string \<Rightarrow> AppState \<Rightarrow> AppState" where
  "bankFromBettingNow cid d i s =
     (let pm = perMilestone (settings s);
          targetCard = (case cid of Some c \<Rightarrow> Some c | None \<Rightarrow> autoBankCardId (settings s))
      in if pm \<le> 0 then s
         else if availableProfitBetting s < pm then s
         else bankPayment pm Betting (Some ''Manual bank'') targetCard d i s)"

definition removePayment :: "string \<Rightarrow> AppState \<Rightarrow> AppState" where
  "removePayment pid s = s\<lparr> payments := filter (\<lambda>p. pay_id p \<noteq> pid) (payments s) \<rparr>"

subsection \<open>The operations on the application state\<close>

text \<open>
  Every state setter of \<open>App\<close> is reached through one of these: the named functions, the
  auto-bank effect, and the inline handlers that replace the settings or the card list.
\<close>

datatype Action =
    AddBet PartialBet string string
  | UpdateBet string PartialBet string string
  | RemoveBet string
  | BankPayment number PaymentSource "string option" "string option" string string
  | BankFromBettingNow "string option" string string
  | RemovePayment string
  | AutoBank string string
  | SetSettings Settings
  | SetCards "DebtCard list"

fun step :: "Action \<Rightarrow> AppState \<Rightarrow> AppState" where
  "step (AddBet form now i) s = addBet form now i s"
| "step (UpdateBet bid patch nowU nowS) s = updateBet bid patch nowU nowS s"
| "step (RemoveBet bid) s = removeBet bid s"
| "step (BankPayment amt src nt cid d i) s = bankPayment amt src nt cid d i s"
| "step (BankFromBettingNow cid d i) s = bankFromBettingNow cid d i s"
| "step (RemovePayment pid) s = removePayment pid s"
| "step (AutoBank d i) s = autoBank d i s"
| "step (SetSettings st) s = s\<lparr> settings := st \<rparr>"
| "step (SetCards cs) s = s\<lparr> cards := cs \<rparr>"

subsection \<open>Sample data of the source\<close>

text \<open>\<open>DEFAULTS\<close>, and the bets, payments and cards of \<open>runSelfTests\<close>.\<close>

definition DEFAULTS :: Settings where
  "DEFAULTS = \<lparr> debtTotal = 0, startingBankroll = 5, targetAmount = 100,
                 bankPercentOnTarget = 50, autoBankEnabled = True, autoBankCardId = None,
                 runStartStake = 5, runTargetStake = 100 \<rparr>"





definition sampleCards :: "DebtCard list" where
  "sampleCards = [\<lparr> card_id = ''c1'', card_name = ''Barclaycard'', balance = 1000 \<rparr>,
                  \<lparr> card_id = ''c2'', card_name = ''Amex'', balance = 500 \<rparr>]"

definition paysToCards :: "Payment list" where
  "paysToCards =
     [\<lparr> pay_id = ''q1'', pay_date = ''2025-03-01'', amount = 200, source = Savings,
        pay_note = None, cardId = Some ''c1'' \<rparr>,
      \<lparr> pay_id = ''q2'', pay_date = ''2025-03-05'', amount = 100, source = Trading,
        pay_note = None, cardId = Some ''c2'' \<rparr>]"

text \<open>
  A state in which the auto-bank effect fires (a win of 300 with the default settings),
  and settings whose per-milestone amount rounds to zero.
\<close>

definition betW :: Bet where
  "betW = \<lparr> bet_id = ''4'', bet_date = ''2025-01-04'', description = ''W'', sport = Cricket,
            stake = 100, oddsDecimal = 4, status = Won, returnOverride = None,
            settledAt = Some ''2025-01-04T18:00:00.000Z'',
            createdAt = ''2025-01-04T12:00:00.000Z'',
            updatedAt = ''2025-01-04T18:00:00.000Z'' \<rparr>"

definition winState :: AppState where
  "winState = \<lparr> bets = [betW], settings = DEFAULTS, payments = [], bankedMilestones = 0,
                 cards = sampleCards \<rparr>"



definition cardState :: AppState where
  "cardState = \<lparr> bets = [], settings = DEFAULTS, payments = paysToCards,
                  bankedMilestones = 0, cards = sampleCards \<rparr>"

definition unearmarked :: Payment where
  "unearmarked = \<lparr> pay_id = ''p3'', pay_date = ''2025-01-03'', amount = 5, source = Savings,
                    pay_note = None, cardId = None \<rparr>"

definition zeroForm :: PartialBet where
  "zeroForm = \<lparr> p_id = None, p_date = Some ''2025-01-06'',
                 p_description = Some ''Villa v Palace, over 9 corners'',
                 p_sport = Some Football, p_stake = Some 5, p_oddsDecimal = Some 2,
                 p_status = Some Won, p_returnOverride = Some (Some 0), p_settledAt = None,
                 p_createdAt = None, p_updatedAt = None \<rparr>"

section \<open>Properties\<close>

subsection \<open>Rounding\<close>






lemma foldl_add_sum: "foldl (\<lambda>s x. s + f x) a xs = (a::rat) + sum_list (map f xs)"
  by (induction xs arbitrary: a) (simp_all add: add.assoc)



subsection \<open>The milestone engine\<close>

text \<open>
  C1. When the counter is at least \<open>floor(availableProfit / targetAmount)\<close>, the
  milestone evaluation does nothing, for the same and for every lower available profit:
  it emits no payment and returns the counter it was given.
\<close>

theorem autoBankEffect_noop:
  assumes "Math_floor (avail / targetAmount st) \<le> banked" and "avail' \<le> avail"
  shows "autoBankEffect st avail' banked cs d i = (None, banked)"
proof (cases "targetAmount st \<le> 0")
  case True
  then show ?thesis by (simp add: autoBankEffect_def)
next
  case False
  then have "avail' / targetAmount st \<le> avail / targetAmount st"
    using assms(2) by (simp add: divide_right_mono)
  then have "Math_floor (avail' / targetAmount st) \<le> Math_floor (avail / targetAmount st)"
    by (simp add: Math_floor_def floor_mono)
  with assms(1) have "\<not> Math_floor (avail' / targetAmount st) > banked" by simp
  then show ?thesis by (simp add: autoBankEffect_def Let_def)
qed

theorem autoBankEffect_noop_witness:
  "Math_floor (250 / targetAmount DEFAULTS) \<le> 2 \<and> (180 :: number) \<le> 250
   \<and> autoBankEffect DEFAULTS 180 2 sampleCards ''2025-01-01'' ''id1'' = (None, 2)"
proof -
  have a: "Math_floor (250 / targetAmount DEFAULTS) \<le> 2" by code_simp
  have b: "(180 :: number) \<le> 250" by simp
  show ?thesis
    using a b autoBankEffect_noop [OF a b, of sampleCards "''2025-01-01''" "''id1''"]
    by simp
qed

lemma autoBankEffect_counter:
  "snd (autoBankEffect st avail banked cs d i) = banked \<or>
   (snd (autoBankEffect st avail banked cs d i) = Math_floor (avail / targetAmount st) \<and>
    banked < snd (autoBankEffect st avail banked cs d i))"
  by (simp add: autoBankEffect_def Let_def)

lemma autoBank_counter:
  "bankedMilestones (autoBank d i s) =
     snd (autoBankEffect (settings s) (availableProfitBetting s) (bankedMilestones s)
            (cards s) d i)"
  by (simp add: autoBank_def split: prod.splits option.splits)

text \<open>
  C2. The milestone counter never decreases. An evaluation of the milestone effect
  returns the counter it was given or \<open>floor(availableProfit / targetAmount)\<close>, and then
  that is strictly larger; every operation on the application state leaves
  \<open>bankedMilestones\<close> as it is, except the auto-bank effect, which may set it to that
  larger value.
\<close>

theorem bankedMilestones_monotone:
  "(snd (autoBankEffect st avail banked cs d i) = banked \<or>
    (snd (autoBankEffect st avail banked cs d i) = Math_floor (avail / targetAmount st) \<and>
     banked < snd (autoBankEffect st avail banked cs d i)))
   \<and> (bankedMilestones (step a s) = bankedMilestones s \<or>
      ((\<exists>d' i'. a = AutoBank d' i') \<and>
       bankedMilestones (step a s)
         = Math_floor (availableProfitBetting s / targetAmount (settings s)) \<and>
       bankedMilestones s < bankedMilestones (step a s)))"
proof
  show "snd (autoBankEffect st avail banked cs d i) = banked \<or>
    (snd (autoBankEffect st avail banked cs d i) = Math_floor (avail / targetAmount st) \<and>
     banked < snd (autoBankEffect st avail banked cs d i))"
    by (rule autoBankEffect_counter)
next
  show "bankedMilestones (step a s) = bankedMilestones s \<or>
      ((\<exists>d' i'. a = AutoBank d' i') \<and>
       bankedMilestones (step a s)
         = Math_floor (availableProfitBetting s / targetAmount (settings s)) \<and>
       bankedMilestones s < bankedMilestones (step a s))"
  proof (cases a)
    case (AutoBank d' i')
    show ?thesis
      using autoBankEffect_counter [of "settings s" "availableProfitBetting s"
          "bankedMilestones s" "cards s" d' i']
      by (auto simp: AutoBank autoBank_counter)
  qed (auto simp: addBet_def updateBet_def removeBet_def bankPayment_def
         bankFromBettingNow_def removePayment_def Let_def split: option.splits)
qed

theorem bankedMilestones_monotone_witness:
  "bankedMilestones (step (AutoBank ''2025-01-05'' ''id9'') winState)
     = Math_floor (availableProfitBetting winState / targetAmount (settings winState))
   \<and> bankedMilestones winState < bankedMilestones (step (AutoBank ''2025-01-05'' ''id9'') winState)
   \<and> bankedMilestones (step (RemoveBet ''4'') winState) = bankedMilestones winState
   \<and> snd (autoBankEffect DEFAULTS 250 0 sampleCards ''2025-01-05'' ''id9'')
       = Math_floor (250 / targetAmount DEFAULTS)
   \<and> 0 < snd (autoBankEffect DEFAULTS 250 0 sampleCards ''2025-01-05'' ''id9'')"
proof -
  have a: "bankedMilestones (step (AutoBank ''2025-01-05'' ''id9'') winState)
             \<noteq> bankedMilestones winState"
    by code_simp
  have b: "snd (autoBankEffect DEFAULTS 250 0 sampleCards ''2025-01-05'' ''id9'') \<noteq> 0"
    by code_simp
  have c: "\<not> (\<exists>d' i'. RemoveBet ''4'' = AutoBank d' i')" by simp
  show ?thesis
    using a b c
      bankedMilestones_monotone [of DEFAULTS 250 0 sampleCards "''2025-01-05''" "''id9''"
        "AutoBank ''2025-01-05'' ''id9''" winState]
      bankedMilestones_monotone [of DEFAULTS 250 0 sampleCards "''2025-01-05''" "''id9''"
        "RemoveBet ''4''" winState]
    by blast
qed






subsection \<open>The return resolver\<close>


subsection \<open>The statistics\<close>




subsection \<open>The debt figures\<close>







lemma sumPaymentsToCard_unearmarked:
  "cardId p = None \<Longrightarrow> sumPaymentsToCard (p # pays) cid = sumPaymentsToCard pays cid"
  by (simp add: sumPaymentsToCard_def)

lemma remainingDebtFromCards_unearmarked:
  "cardId p = None \<Longrightarrow> remainingDebtFromCards cs (p # pays) = remainingDebtFromCards cs pays"
  by (simp add: remainingDebtFromCards_def sumPaymentsToCard_unearmarked)

text \<open>
  C7 (as the code has it). With at least one card, a payment without a card id changes
  no card's paid sum, so it reduces no card's remaining balance; it leaves the remaining
  debt, the total debt and the paid figure \<open>totalDebt - remainingDebt\<close> unchanged. It
  is counted only in the sum of all payments, \<open>paidTotal\<close>, which the debt overview reads
  only when there is no card.
\<close>

theorem unearmarked_not_counted:
  assumes "cards s \<noteq> []" and "cardId p = None"
  shows "sumPaymentsToCard (p # payments s) cid = sumPaymentsToCard (payments s) cid
     \<and> remainingTotal (s\<lparr> payments := p # payments s \<rparr>) = remainingTotal s
     \<and> debtTotalEffective (s\<lparr> payments := p # payments s \<rparr>) = debtTotalEffective s
     \<and> paidShown (s\<lparr> payments := p # payments s \<rparr>) = paidShown s
     \<and> paidTotal (s\<lparr> payments := p # payments s \<rparr>)
         = toFixed2 (amount p + sum_list (map amount (payments s)))"
  using assms
  by (simp add: sumPaymentsToCard_unearmarked remainingDebtFromCards_unearmarked
        remainingTotal_def debtTotalEffective_def paidShown_def paidTotal_def
        sumPayments_def foldl_add_sum)

theorem unearmarked_not_counted_witness:
  "cards cardState \<noteq> [] \<and> cardId unearmarked = None
   \<and> remainingTotal (cardState\<lparr> payments := unearmarked # payments cardState \<rparr>) = 1200
   \<and> paidShown (cardState\<lparr> payments := unearmarked # payments cardState \<rparr>) = 300
   \<and> paidShown cardState = 300
   \<and> paidTotal (cardState\<lparr> payments := unearmarked # payments cardState \<rparr>) = 305"
proof -
  have a: "cards cardState \<noteq> []" by code_simp
  have b: "cardId unearmarked = None" by code_simp
  have r: "remainingTotal cardState = 1200" by code_simp
  have q: "paidShown cardState = 300" by code_simp
  have t: "toFixed2 (amount unearmarked + sum_list (map amount (payments cardState))) = 305"
    by code_simp
  show ?thesis
    using a b r q t unearmarked_not_counted [OF a b] by simp
qed

text \<open>
  As C7 is worded, it fails: with the two cards, adding the payment of 5 that names no
  card does not raise the paid figure by 5.
\<close>

theorem unearmarked_paidShown_unchanged:
  "cards cardState \<noteq> [] \<and> cardId unearmarked = None \<and> amount unearmarked = 5
   \<and> paidShown (cardState\<lparr> payments := unearmarked # payments cardState \<rparr>)
       \<noteq> paidShown cardState + amount unearmarked"
  by code_simp

subsection \<open>Bets\<close>

lemma patchBet_leaves_Pending:
  "p_status patch = Some sta \<Longrightarrow> sta \<noteq> Pending
     \<Longrightarrow> status (patchBet b patch nowU nowS) = sta
         \<and> settledAt (patchBet b patch nowU nowS) = Some nowS"
  by (simp add: patchBet_def orElse_def)

lemma patchBet_to_Pending:
  "p_status patch = Some Pending
     \<Longrightarrow> status (patchBet b patch nowU nowS) = Pending
         \<and> settledAt (patchBet b patch nowU nowS) = settledAt b"
  by (simp add: patchBet_def orElse_def)

lemma addBet_settledAt:
  "bets (addBet form now i s) = bets s \<or>
   (\<exists>b. bets (addBet form now i s) = b # bets s
         \<and> settledAt b = (if status b = Pending then None else Some now))"
  by (auto simp: addBet_def Let_def split: option.splits)

text \<open>
  C9. The claim is that creating and updating bets keep \<open>status = Pending\<close> together
  with \<open>settledAt = null\<close>. \<open>addBet\<close> does, and \<open>updateBet\<close> stamps \<open>settledAt\<close> when a
  patch sets a status other than Pending; but for a patch that sets the status back to
  Pending it keeps the old \<open>settledAt\<close>. Here the won bet of \<open>winState\<close>, settled at
  18:00 on 2025-01-04, is set back to Pending and keeps that time stamp.
\<close>

theorem updateBet_back_to_Pending:
  "bets winState = [betW] \<and> status betW = Won
   \<and> settledAt betW = Some ''2025-01-04T18:00:00.000Z''
   \<and> map status (bets (updateBet ''4'' (statusPatch Pending) ''2025-01-07T09:00:00.000Z''
                           ''2025-01-07T09:00:00.001Z'' winState)) = [Pending]
   \<and> map settledAt (bets (updateBet ''4'' (statusPatch Pending) ''2025-01-07T09:00:00.000Z''
                              ''2025-01-07T09:00:00.001Z'' winState))
       = [Some ''2025-01-04T18:00:00.000Z'']"
  by code_simp

text \<open>
  C10. When the form's return override is absent, \<open>null\<close> or exactly \<open>0\<close>, \<open>addBet\<close>
  stores \<open>null\<close>, and the effective return of the new bet is the return computed from
  stake, odds and status. The resolver itself honours an override of \<open>0\<close> that is stored
  on a bet, as \<open>updateBet\<close> stores it with the patch of the return editor.
\<close>

theorem addBet_zero_override:
  assumes "p_date form = Some dt" and "dt \<noteq> []"
    and "p_description form = Some ds" and "ds \<noteq> []"
    and "p_sport form = Some sp" and "p_stake form = Some stk"
    and "p_oddsDecimal form = Some od" and "p_status form = Some sta"
    and "p_returnOverride form = None \<or> p_returnOverride form = Some None
           \<or> p_returnOverride form = Some (Some 0)"
  shows "(\<exists>b. bets (addBet form now i s) = b # bets s \<and> returnOverride b = None
              \<and> effectiveReturn b = calcDefaultReturn stk od sta)
     \<and> effectiveReturn (b0\<lparr> returnOverride := Some 0 \<rparr>) = Some 0
     \<and> effectiveReturn (patchBet b0 (returnPatch (Some 0)) nowU nowS) = Some 0"
  using assms
  by (auto simp: addBet_def Let_def effectiveReturn_def patchBet_def returnPatch_def
        noPatch_def orElse_def)

theorem addBet_zero_override_witness:
  "p_returnOverride zeroForm = Some (Some 0)
   \<and> map returnOverride (bets (addBet zeroForm ''2025-01-06T10:00:00.000Z'' ''id7'' cardState))
       = [None]
   \<and> map effectiveReturn (bets (addBet zeroForm ''2025-01-06T10:00:00.000Z'' ''id7'' cardState))
       = [Some 10]
   \<and> effectiveReturn (patchBet betW (returnPatch (Some 0)) ''2025-01-07T09:00:00.000Z''
                        ''2025-01-07T09:00:00.001Z'') = Some 0"
proof -
  have f: "p_date zeroForm = Some ''2025-01-06''" "''2025-01-06'' \<noteq> []"
    "p_description zeroForm = Some ''Villa v Palace, over 9 corners''"
    "''Villa v Palace, over 9 corners'' \<noteq> []"
    "p_sport zeroForm = Some Football" "p_stake zeroForm = Some 5"
    "p_oddsDecimal zeroForm = Some 2" "p_status zeroForm = Some Won"
    by (simp_all add: zeroForm_def)
  have z: "p_returnOverride zeroForm = Some (Some 0)" by (simp add: zeroForm_def)
  then have z': "p_returnOverride zeroForm = None \<or> p_returnOverride zeroForm = Some None
           \<or> p_returnOverride zeroForm = Some (Some 0)" by simp
  have c: "calcDefaultReturn 5 2 Won = Some 10" by code_simp
  have e: "bets cardState = []" by code_simp
  show ?thesis
    using z c e
      addBet_zero_override [OF f z', of "''2025-01-06T10:00:00.000Z''" "''id7''" cardState
        betW "''2025-01-07T09:00:00.000Z''" "''2025-01-07T09:00:00.001Z''"]
    by auto
qed

end
